theory Spec2Isabelle
  imports Main "HOL-Library.AList" "HOL-Library.Char_ord" "HOL-Library.List_Lexorder"
begin

section \<open>The HTTP binding of components-contrib\<close>

text \<open>
  The repository holds two versions of \<^verbatim>\<open>bindings/http/http.go\<close>:
  \<^item> \<^verbatim>\<open>src/bindings/http/http.go\<close>, whose metadata carries the flat fields
    \<^verbatim>\<open>user\<close> and \<^verbatim>\<open>password\<close>; its definitions keep the source's names;
  \<^item> \<^verbatim>\<open>src/unnamed/part_000\<close>, whose metadata carries a pointer to a nested
    \<^verbatim>\<open>credentials\<close> struct; its definitions carry the suffix \<open>_nc\<close>.

  Go strings are byte strings, as \<^typ>\<open>string\<close> is. The packages \<^verbatim>\<open>net/http\<close>,
  \<^verbatim>\<open>io/ioutil\<close>, \<^verbatim>\<open>encoding/base64\<close> and \<^verbatim>\<open>encoding/json\<close> are not part of the
  repository: the network is a parameter of each call (a \<open>world\<close>), the two encodings
  are written out from their documented behaviour.
\<close>

subsection \<open>Errors\<close>

text \<open>
  A Go \<^verbatim>\<open>error\<close> value returned to the caller, or a run-time panic that unwinds
  through the caller.
\<close>

datatype error = Error string | Panic string

subsection \<open>encoding/base64: StdEncoding.EncodeToString\<close>

definition encodeStd :: string where
  "encodeStd = ''ABCDEFGHIJKLMNOPQRSTUVWXYZabcdefghijklmnopqrstuvwxyz0123456789+/''"

definition enc6 :: "nat \<Rightarrow> char" where
  "enc6 v = encodeStd ! (v mod 64)"

text \<open>
  Three source bytes make a 24-bit value, written as four 6-bit digits; a remainder of
  one or two bytes is padded with \<^verbatim>\<open>=\<close>.
\<close>

fun EncodeToString :: "string \<Rightarrow> string" where
  "EncodeToString [] = []"
| "EncodeToString [a] =
     (let val = of_char a * 65536
      in [enc6 (val div 262144), enc6 (val div 4096), CHR ''='', CHR ''=''])"
| "EncodeToString [a, b] =
     (let val = of_char a * 65536 + of_char b * 256
      in [enc6 (val div 262144), enc6 (val div 4096), enc6 (val div 64), CHR ''=''])"
| "EncodeToString (a # b # c # src) =
     (let val = of_char a * 65536 + of_char b * 256 + of_char c
      in [enc6 (val div 262144), enc6 (val div 4096), enc6 (val div 64), enc6 val]
         @ EncodeToString src)"

subsection \<open>net/http: requests, responses, the client\<close>

text \<open>
  A request as \<^verbatim>\<open>http.NewRequest\<close> builds it from the method, URL and body the
  adapter hands to it, with an empty header map; it reads an empty method as GET.
  \<^verbatim>\<open>Header.Set\<close> replaces the values of a key by one value; both keys the adapter
  sets are in canonical form already.
\<close>

record request =
  req_Method :: string
  req_URL :: string
  req_Header :: "(string \<times> string list) list"
  req_Body :: "string option"

definition Header_Set :: "string \<Rightarrow> string \<Rightarrow> request \<Rightarrow> request" where
  "Header_Set key v r = r\<lparr>req_Header := AList.update key [v] (req_Header r)\<rparr>"

definition Header_Values :: "request \<Rightarrow> string \<Rightarrow> string list option" where
  "Header_Values r key = map_of (req_Header r) key"

text \<open>
  A response body is given by what \<^verbatim>\<open>ioutil.ReadAll\<close> yields on it: the bytes, or
  the error that interrupted the reading. \<^verbatim>\<open>resp.Body\<close> may be nil as far as the
  adapter's checks go, hence the option.
\<close>

type_synonym body = "error + string"

record response =
  Status :: string
  resp_Body :: "body option"

text \<open>
  What one call meets outside the adapter: whether \<^verbatim>\<open>http.NewRequest\<close> rejects a
  method and URL, and what \<^verbatim>\<open>client.Do\<close> returns for a request under a client
  timeout (in seconds).
\<close>

record world =
  NewRequest_err :: "string \<Rightarrow> string \<Rightarrow> error option"
  client_Do :: "nat \<Rightarrow> request \<Rightarrow> error + response"

definition NewRequest :: "world \<Rightarrow> string \<Rightarrow> string \<Rightarrow> string option \<Rightarrow> error + request" where
  "NewRequest w method url b =
     (case NewRequest_err w method url of
        Some err \<Rightarrow> Inl err
      | None \<Rightarrow>
          Inr \<lparr>req_Method = (if method = '''' then ''GET'' else method), req_URL = url,
               req_Header = [], req_Body = b\<rparr>)"

text \<open>
  The effects of a call, in order: a request handed to \<^verbatim>\<open>client.Do\<close> (with the
  client's timeout), the response body read, the response body closed, the caller's
  handler run on some data.
\<close>

datatype event = Sent nat request | BodyRead | BodyClosed | Handled string

fun sent_requests :: "event list \<Rightarrow> request list" where
  "sent_requests [] = []"
| "sent_requests (Sent t r # es) = r # sent_requests es"
| "sent_requests (e # es) = sent_requests es"

fun handled :: "event list \<Rightarrow> string list" where
  "handled [] = []"
| "handled (Handled d # es) = d # handled es"
| "handled (e # es) = handled es"

subsection \<open>http.go: the adapter with flat credentials\<close>

record httpMetadata =
  URL :: string
  Method :: string
  User :: string
  Password :: string

record 'l HTTPSource =
  metadata :: httpMetadata
  logger :: 'l

definition NewHTTP :: "'l \<Rightarrow> 'l HTTPSource" where
  "NewHTTP lg = \<lparr>metadata = \<lparr>URL = '''', Method = '''', User = '''', Password = ''''\<rparr>, logger = lg\<rparr>"

definition addBasicAuthHeader :: "request \<Rightarrow> string \<Rightarrow> string \<Rightarrow> request" where
  "addBasicAuthHeader request user password =
     (let auth = user @ '':'' @ password;
          encodedAuth = EncodeToString auth
      in Header_Set ''Authorization'' (''Basic '' @ encodedAuth) request)"

definition addCredentials :: "request \<Rightarrow> string \<Rightarrow> string \<Rightarrow> request" where
  "addCredentials req user password =
     (if user \<noteq> '''' \<and> password \<noteq> '''' then addBasicAuthHeader req user password else req)"

text \<open>
  The methods have the pointer receiver \<^verbatim>\<open>h *HTTPSource\<close>: each is a function of the
  adapter that returns, beside its result and its effects, the adapter as the call
  leaves it.

  \<^verbatim>\<open>get\<close>: \<^verbatim>\<open>ioutil.ReadAll(resp.Body)\<close> comes before the nil check of the body, so a
  nil body is a nil dereference; an error of the reading returns at once, before the
  body is closed.
\<close>

definition HTTPSource_get ::
  "world \<Rightarrow> string \<Rightarrow> 'l HTTPSource \<Rightarrow> ((error + string) \<times> event list) \<times> 'l HTTPSource" where
  "HTTPSource_get w url h =
     (case NewRequest w ''GET'' url None of
        Inl err \<Rightarrow> ((Inl err, []), h)
      | Inr req0 \<Rightarrow>
          (let req = addCredentials req0 (User (metadata h)) (Password (metadata h)) in
           case client_Do w 60 req of
             Inl err \<Rightarrow> ((Inl err, [Sent 60 req]), h)
           | Inr resp \<Rightarrow>
               (case resp_Body resp of
                  None \<Rightarrow> ((Inl (Panic ''nil pointer dereference''), [Sent 60 req]), h)
                | Some bd \<Rightarrow>
                    (case bd of
                       Inl err \<Rightarrow> ((Inl err, [Sent 60 req, BodyRead]), h)
                     | Inr b \<Rightarrow> ((Inr b, [Sent 60 req, BodyRead, BodyClosed]), h)))))"

text \<open>What \<^verbatim>\<open>get\<close> returns and does.\<close>

definition get :: "world \<Rightarrow> 'l HTTPSource \<Rightarrow> string \<Rightarrow> (error + string) \<times> event list" where
  "get w h url = fst (HTTPSource_get w url h)"

text \<open>
  \<^verbatim>\<open>Read\<close>: the handler is a function from the data to its error (nil is \<open>None\<close>);
  the value it returns is dropped and \<^verbatim>\<open>Read\<close> returns nil.
\<close>

type_synonym handler = "string \<Rightarrow> error option"

definition HTTPSource_Read ::
  "world \<Rightarrow> handler \<Rightarrow> 'l HTTPSource \<Rightarrow> (error option \<times> event list) \<times> 'l HTTPSource" where
  "HTTPSource_Read w handler h =
     (case HTTPSource_get w (URL (metadata h)) h of
        ((Inl err, es), h') \<Rightarrow> ((Some err, es), h')
      | ((Inr b, es), h') \<Rightarrow> (let _ = handler b in ((None, es @ [Handled b]), h')))"

definition Read :: "world \<Rightarrow> 'l HTTPSource \<Rightarrow> handler \<Rightarrow> error option \<times> event list" where
  "Read w h handler = fst (HTTPSource_Read w handler h)"

datatype OperationKind = CreateOperation

definition HTTPSource_Operations :: "'l HTTPSource \<Rightarrow> OperationKind list \<times> 'l HTTPSource" where
  "HTTPSource_Operations h = ([CreateOperation], h)"

definition Operations :: "'l HTTPSource \<Rightarrow> OperationKind list" where
  "Operations h = fst (HTTPSource_Operations h)"

record InvokeResponse =
  Data :: "string option"
  Metadata :: "(string \<times> string) list"

definition HTTPSource_Invoke ::
  "world \<Rightarrow> string \<Rightarrow> 'l HTTPSource \<Rightarrow> ((error + InvokeResponse) \<times> event list) \<times> 'l HTTPSource" where
  "HTTPSource_Invoke w data h =
     (case NewRequest w (Method (metadata h)) (URL (metadata h)) (Some data) of
        Inl err \<Rightarrow> ((Inl err, []), h)
      | Inr r0 \<Rightarrow>
          (let r1 = Header_Set ''Content-Type'' ''application/json; charset=utf-8'' r0;
               r = addCredentials r1 (User (metadata h)) (Password (metadata h)) in
           case client_Do w 5 r of
             Inl err \<Rightarrow> ((Inl err, [Sent 5 r]), h)
           | Inr resp \<Rightarrow>
               (case resp_Body resp of
                  Some bd \<Rightarrow>
                    (case bd of
                       Inl err \<Rightarrow> ((Inl err, [Sent 5 r, BodyRead]), h)
                     | Inr d \<Rightarrow>
                         ((Inr \<lparr>Data = Some d, Metadata = [(''status'', Status resp)]\<rparr>,
                           [Sent 5 r, BodyRead, BodyClosed]), h))
                | None \<Rightarrow>
                    ((Inr \<lparr>Data = None, Metadata = [(''status'', Status resp)]\<rparr>,
                      [Sent 5 r]), h))))"

definition Invoke :: "world \<Rightarrow> 'l HTTPSource \<Rightarrow> string \<Rightarrow> (error + InvokeResponse) \<times> event list" where
  "Invoke w h data = fst (HTTPSource_Invoke w data h)"

subsection \<open>part\_000: the adapter with nested credentials\<close>

record credentials =
  cred_User :: string
  cred_Password :: string

record httpMetadata_nc =
  URL_nc :: string
  Method_nc :: string
  Credentials :: "credentials option"

record 'l HTTPSource_nc =
  metadata_nc :: httpMetadata_nc
  logger_nc :: 'l

definition NewHTTP_nc :: "'l \<Rightarrow> 'l HTTPSource_nc" where
  "NewHTTP_nc lg = \<lparr>metadata_nc = \<lparr>URL_nc = '''', Method_nc = '''', Credentials = None\<rparr>, logger_nc = lg\<rparr>"

definition addCredentials_nc :: "request \<Rightarrow> credentials option \<Rightarrow> request" where
  "addCredentials_nc req creds =
     (case creds of
        None \<Rightarrow> req
      | Some c \<Rightarrow>
          (if cred_User c \<noteq> '''' \<and> cred_Password c \<noteq> ''''
           then addBasicAuthHeader req (cred_User c) (cred_Password c) else req))"

definition HTTPSource_get_nc ::
  "world \<Rightarrow> string \<Rightarrow> 'l HTTPSource_nc \<Rightarrow> ((error + string) \<times> event list) \<times> 'l HTTPSource_nc" where
  "HTTPSource_get_nc w url h =
     (case NewRequest w ''GET'' url None of
        Inl err \<Rightarrow> ((Inl err, []), h)
      | Inr req0 \<Rightarrow>
          (let req = addCredentials_nc req0 (Credentials (metadata_nc h)) in
           case client_Do w 60 req of
             Inl err \<Rightarrow> ((Inl err, [Sent 60 req]), h)
           | Inr resp \<Rightarrow>
               (case resp_Body resp of
                  None \<Rightarrow> ((Inl (Panic ''nil pointer dereference''), [Sent 60 req]), h)
                | Some bd \<Rightarrow>
                    (case bd of
                       Inl err \<Rightarrow> ((Inl err, [Sent 60 req, BodyRead]), h)
                     | Inr b \<Rightarrow> ((Inr b, [Sent 60 req, BodyRead, BodyClosed]), h)))))"

definition get_nc :: "world \<Rightarrow> 'l HTTPSource_nc \<Rightarrow> string \<Rightarrow> (error + string) \<times> event list" where
  "get_nc w h url = fst (HTTPSource_get_nc w url h)"

definition HTTPSource_Read_nc ::
  "world \<Rightarrow> handler \<Rightarrow> 'l HTTPSource_nc \<Rightarrow> (error option \<times> event list) \<times> 'l HTTPSource_nc" where
  "HTTPSource_Read_nc w handler h =
     (case HTTPSource_get_nc w (URL_nc (metadata_nc h)) h of
        ((Inl err, es), h') \<Rightarrow> ((Some err, es), h')
      | ((Inr b, es), h') \<Rightarrow> (let _ = handler b in ((None, es @ [Handled b]), h')))"

definition Read_nc :: "world \<Rightarrow> 'l HTTPSource_nc \<Rightarrow> handler \<Rightarrow> error option \<times> event list" where
  "Read_nc w h handler = fst (HTTPSource_Read_nc w handler h)"

definition HTTPSource_Operations_nc ::
  "'l HTTPSource_nc \<Rightarrow> OperationKind list \<times> 'l HTTPSource_nc" where
  "HTTPSource_Operations_nc h = ([CreateOperation], h)"

definition Operations_nc :: "'l HTTPSource_nc \<Rightarrow> OperationKind list" where
  "Operations_nc h = fst (HTTPSource_Operations_nc h)"

text \<open>
  \<^verbatim>\<open>Invoke\<close> of this version posts, closes the body unread and returns
  \<^verbatim>\<open>nil, nil\<close>: no response at all (\<open>Inr None\<close>).
\<close>

definition HTTPSource_Invoke_nc ::
  "world \<Rightarrow> string \<Rightarrow> 'l HTTPSource_nc \<Rightarrow>
     ((error + InvokeResponse option) \<times> event list) \<times> 'l HTTPSource_nc" where
  "HTTPSource_Invoke_nc w data h =
     (case NewRequest w ''POST'' (URL_nc (metadata_nc h)) (Some data) of
        Inl err \<Rightarrow> ((Inl err, []), h)
      | Inr r0 \<Rightarrow>
          (let r1 = Header_Set ''Content-Type'' ''application/json; charset=utf-8'' r0;
               r = addCredentials_nc r1 (Credentials (metadata_nc h)) in
           case client_Do w 5 r of
             Inl err \<Rightarrow> ((Inl err, [Sent 5 r]), h)
           | Inr resp \<Rightarrow>
               ((Inr None,
                 Sent 5 r # (if resp_Body resp \<noteq> None then [BodyClosed] else [])), h)))"

definition Invoke_nc ::
  "world \<Rightarrow> 'l HTTPSource_nc \<Rightarrow> string \<Rightarrow> (error + InvokeResponse option) \<times> event list" where
  "Invoke_nc w h data = fst (HTTPSource_Invoke_nc w data h)"

subsection \<open>encoding/json, as far as Init uses it\<close>

text \<open>
  \<^verbatim>\<open>Init\<close> marshals the property map and unmarshals the document into the metadata
  struct. The document is kept as its syntax tree; a map of strings marshals to an
  object of strings (a nil map to \<^verbatim>\<open>null\<close>).
\<close>

datatype json = JNull | JString string | JObject "(string \<times> json) list"

text \<open>
  The encoder writes a string rune by rune and replaces every byte that does not start
  a well-formed UTF-8 sequence by U+FFFD; \<open>rune_size\<close> is the length of the well-formed
  sequence at the head of a string, 0 when there is none.
\<close>

definition in_range :: "char \<Rightarrow> nat \<Rightarrow> nat \<Rightarrow> bool" where
  "in_range c lo hi = (lo \<le> of_char c \<and> (of_char c :: nat) \<le> hi)"

definition rune_size :: "string \<Rightarrow> nat" where
  "rune_size s =
     (case s of
        [] \<Rightarrow> 0
      | c # cs \<Rightarrow>
          (let b = (of_char c :: nat) in
           if b < 128 then 1
           else if 194 \<le> b \<and> b < 224 then
             (case cs of
                c1 # _ \<Rightarrow> if in_range c1 128 191 then 2 else 0
              | _ \<Rightarrow> 0)
           else if 224 \<le> b \<and> b < 240 then
             (case cs of
                c1 # c2 # _ \<Rightarrow>
                  if in_range c1 (if b = 224 then 160 else 128) (if b = 237 then 159 else 191)
                     \<and> in_range c2 128 191 then 3 else 0
              | _ \<Rightarrow> 0)
           else if 240 \<le> b \<and> b < 245 then
             (case cs of
                c1 # c2 # c3 # _ \<Rightarrow>
                  if in_range c1 (if b = 240 then 144 else 128) (if b = 244 then 143 else 191)
                     \<and> in_range c2 128 191 \<and> in_range c3 128 191 then 4 else 0
              | _ \<Rightarrow> 0)
           else 0))"

fun coerce_utf8 :: "string \<Rightarrow> string" where
  "coerce_utf8 [] = []"
| "coerce_utf8 (c # cs) =
     (let n = rune_size (c # cs) in
      if n = 0 then [CHR 0xEF, CHR 0xBF, CHR 0xBD] @ coerce_utf8 cs
      else (c # take (n - 1) cs) @ coerce_utf8 (drop (n - 1) cs))"

text \<open>
  \<^verbatim>\<open>bindings.Metadata\<close>; the Go map is given by its entries (distinct keys, any
  order). The encoder sorts the entries by key.
\<close>

record bindings_Metadata =
  Name :: string
  Properties :: "(string \<times> string) list"

definition Marshal :: "(string \<times> string) list \<Rightarrow> error + json" where
  "Marshal props =
     Inr (JObject (map (\<lambda>(k, v). (coerce_utf8 k, JString (coerce_utf8 v))) (sort_key fst props)))"

text \<open>
  The decoder finds the field of a key by its name, letter case ignored: ASCII letters
  fold to upper case, and of the runes beyond ASCII only U+017F (long s) and U+212A
  (Kelvin sign) fold to an ASCII letter.
\<close>

definition toUpper :: "char \<Rightarrow> char" where
  "toUpper c = (if in_range c 97 122 then char_of (of_char c - (32::nat)) else c)"

fun foldName :: "string \<Rightarrow> string" where
  "foldName [] = []"
| "foldName (c # cs) =
     (if c = CHR 0xC5 \<and> take 1 cs = [CHR 0xBF] then CHR ''S'' # foldName (drop 1 cs)
      else if c = CHR 0xE2 \<and> take 2 cs = [CHR 0x84, CHR 0xAA] then CHR ''K'' # foldName (drop 2 cs)
      else toUpper c # foldName cs)"

definition typeError :: "string \<Rightarrow> string \<Rightarrow> string \<Rightarrow> string \<Rightarrow> error" where
  "typeError v st f t =
     Error (if st = '''' \<and> f = ''''
            then ''json: cannot unmarshal '' @ v @ '' into Go value of type '' @ t
            else ''json: cannot unmarshal '' @ v @ '' into Go struct field '' @ st @ ''.'' @ f
                 @ '' of type '' @ t)"

text \<open>The JSON name of the field that a folded key names.\<close>

definition fieldTag :: "string \<Rightarrow> string" where
  "fieldTag name =
     (if name = ''URL'' then ''url''
      else if name = ''METHOD'' then ''method''
      else if name = ''USER'' then ''user''
      else if name = ''PASSWORD'' then ''password''
      else ''credentials'')"

text \<open>The decoder keeps the first type error, skips the field and goes on.\<close>

definition saveError :: "error option \<Rightarrow> error \<Rightarrow> error option" where
  "saveError saved err = (case saved of None \<Rightarrow> Some err | Some e \<Rightarrow> Some e)"

fun setField :: "string \<times> json \<Rightarrow> httpMetadata \<times> error option \<Rightarrow> httpMetadata \<times> error option" where
  "setField (key, v) (m, saved) =
     (let name = foldName key in
      if name \<notin> {''URL'', ''METHOD'', ''USER'', ''PASSWORD''} then (m, saved)
      else
        (case v of
           JNull \<Rightarrow> (m, saved)
         | JObject kvs \<Rightarrow>
             (m, saveError saved (typeError ''object'' ''httpMetadata'' (fieldTag name) ''string''))
         | JString s \<Rightarrow>
             (if name = ''URL'' then m\<lparr>URL := s\<rparr>
              else if name = ''METHOD'' then m\<lparr>Method := s\<rparr>
              else if name = ''USER'' then m\<lparr>User := s\<rparr>
              else m\<lparr>Password := s\<rparr>, saved)))"

definition Unmarshal :: "json \<Rightarrow> httpMetadata \<Rightarrow> error + httpMetadata" where
  "Unmarshal b m =
     (case b of
        JNull \<Rightarrow> Inr m
      | JString s \<Rightarrow> Inl (typeError ''string'' '''' '''' ''http.httpMetadata'')
      | JObject kvs \<Rightarrow>
          (case fold setField kvs (m, None) of
             (m', None) \<Rightarrow> Inr m'
           | (m', Some err) \<Rightarrow> Inl err))"

text \<open>
  \<^verbatim>\<open>Init\<close> of http.go: \<open>Inr\<close> the adapter with its metadata set, or \<open>Inl\<close> the error
  (the adapter is then as it was).
\<close>

definition zero_httpMetadata :: httpMetadata where
  "zero_httpMetadata = \<lparr>URL = '''', Method = '''', User = '''', Password = ''''\<rparr>"

definition Init :: "'l HTTPSource \<Rightarrow> bindings_Metadata \<Rightarrow> error + 'l HTTPSource" where
  "Init h md =
     (case Marshal (Properties md) of
        Inl err \<Rightarrow> Inl err
      | Inr b \<Rightarrow>
          (case Unmarshal b zero_httpMetadata of
             Inl err \<Rightarrow> Inl err
           | Inr m \<Rightarrow> Inr (h\<lparr>metadata := m\<rparr>)))"

text \<open>
  The metadata of part\_000: \<^verbatim>\<open>Credentials\<close> is a pointer to a struct. The decoder
  sets it to nil on \<^verbatim>\<open>null\<close>, fills the struct (allocated when nil) from an object,
  and records a type error on a string.
\<close>

definition zero_credentials :: credentials where
  "zero_credentials = \<lparr>cred_User = '''', cred_Password = ''''\<rparr>"

definition zero_httpMetadata_nc :: httpMetadata_nc where
  "zero_httpMetadata_nc = \<lparr>URL_nc = '''', Method_nc = '''', Credentials = None\<rparr>"

fun setCredField :: "string \<times> json \<Rightarrow> credentials \<times> error option \<Rightarrow> credentials \<times> error option" where
  "setCredField (key, v) (c, saved) =
     (let name = foldName key in
      if name \<notin> {''USER'', ''PASSWORD''} then (c, saved)
      else
        (case v of
           JNull \<Rightarrow> (c, saved)
         | JObject kvs \<Rightarrow>
             (c, saveError saved
                   (typeError ''object'' ''credentials'' (''credentials.'' @ fieldTag name) ''string''))
         | JString s \<Rightarrow>
             (if name = ''USER'' then c\<lparr>cred_User := s\<rparr> else c\<lparr>cred_Password := s\<rparr>, saved)))"

fun setField_nc ::
  "string \<times> json \<Rightarrow> httpMetadata_nc \<times> error option \<Rightarrow> httpMetadata_nc \<times> error option" where
  "setField_nc (key, v) (m, saved) =
     (let name = foldName key in
      if name = ''CREDENTIALS'' then
        (let c0 = (case Credentials m of None \<Rightarrow> zero_credentials | Some c \<Rightarrow> c) in
         case v of
           JNull \<Rightarrow> (m\<lparr>Credentials := None\<rparr>, saved)
         | JString s \<Rightarrow>
             (m\<lparr>Credentials := Some c0\<rparr>,
              saveError saved
                (typeError ''string'' ''httpMetadata'' ''credentials'' ''http.credentials''))
         | JObject kvs \<Rightarrow>
             (case fold setCredField kvs (c0, saved) of
                (c, saved') \<Rightarrow> (m\<lparr>Credentials := Some c\<rparr>, saved')))
      else if name \<notin> {''URL'', ''METHOD''} then (m, saved)
      else
        (case v of
           JNull \<Rightarrow> (m, saved)
         | JObject kvs \<Rightarrow>
             (m, saveError saved (typeError ''object'' ''httpMetadata'' (fieldTag name) ''string''))
         | JString s \<Rightarrow> (if name = ''URL'' then m\<lparr>URL_nc := s\<rparr> else m\<lparr>Method_nc := s\<rparr>, saved)))"

definition Unmarshal_nc :: "json \<Rightarrow> httpMetadata_nc \<Rightarrow> error + httpMetadata_nc" where
  "Unmarshal_nc b m =
     (case b of
        JNull \<Rightarrow> Inr m
      | JString s \<Rightarrow> Inl (typeError ''string'' '''' '''' ''http.httpMetadata'')
      | JObject kvs \<Rightarrow>
          (case fold setField_nc kvs (m, None) of
             (m', None) \<Rightarrow> Inr m'
           | (m', Some err) \<Rightarrow> Inl err))"

definition Init_nc :: "'l HTTPSource_nc \<Rightarrow> bindings_Metadata \<Rightarrow> error + 'l HTTPSource_nc" where
  "Init_nc h md =
     (case Marshal (Properties md) of
        Inl err \<Rightarrow> Inl err
      | Inr b \<Rightarrow>
          (case Unmarshal_nc b zero_httpMetadata_nc of
             Inl err \<Rightarrow> Inl err
           | Inr m \<Rightarrow> Inr (h\<lparr>metadata_nc := m\<rparr>)))"

subsection \<open>Sequences of calls on an initialized adapter\<close>

text \<open>
  A call of the host after \<^verbatim>\<open>Init\<close>, with the world it meets. Each call runs the
  method on the adapter as the call before left it.
\<close>

datatype call = ReadCall world handler | InvokeCall world string | OperationsCall

datatype outcome =
  ReadDone "error option \<times> event list"
| InvokeDone "(error + InvokeResponse) \<times> event list"
| OperationsDone "OperationKind list"

fun serve :: "'l HTTPSource \<Rightarrow> call \<Rightarrow> outcome \<times> 'l HTTPSource" where
  "serve h (ReadCall w handler) =
     (case HTTPSource_Read w handler h of (res, h') \<Rightarrow> (ReadDone res, h'))"
| "serve h (InvokeCall w data) =
     (case HTTPSource_Invoke w data h of (res, h') \<Rightarrow> (InvokeDone res, h'))"
| "serve h OperationsCall =
     (case HTTPSource_Operations h of (res, h') \<Rightarrow> (OperationsDone res, h'))"

fun serve_all :: "'l HTTPSource \<Rightarrow> call list \<Rightarrow> outcome list \<times> 'l HTTPSource" where
  "serve_all h [] = ([], h)"
| "serve_all h (c # cs) =
     (case serve h c of
        (out, h') \<Rightarrow> (case serve_all h' cs of (outs, h'') \<Rightarrow> (out # outs, h'')))"

datatype outcome_nc =
  ReadDone_nc "error option \<times> event list"
| InvokeDone_nc "(error + InvokeResponse option) \<times> event list"
| OperationsDone_nc "OperationKind list"

fun serve_nc :: "'l HTTPSource_nc \<Rightarrow> call \<Rightarrow> outcome_nc \<times> 'l HTTPSource_nc" where
  "serve_nc h (ReadCall w handler) =
     (case HTTPSource_Read_nc w handler h of (res, h') \<Rightarrow> (ReadDone_nc res, h'))"
| "serve_nc h (InvokeCall w data) =
     (case HTTPSource_Invoke_nc w data h of (res, h') \<Rightarrow> (InvokeDone_nc res, h'))"
| "serve_nc h OperationsCall =
     (case HTTPSource_Operations_nc h of (res, h') \<Rightarrow> (OperationsDone_nc res, h'))"

fun serve_all_nc :: "'l HTTPSource_nc \<Rightarrow> call list \<Rightarrow> outcome_nc list \<times> 'l HTTPSource_nc" where
  "serve_all_nc h [] = ([], h)"
| "serve_all_nc h (c # cs) =
     (case serve_nc h c of
        (out, h') \<Rightarrow> (case serve_all_nc h' cs of (outs, h'') \<Rightarrow> (out # outs, h'')))"

subsection \<open>Properties of a configuration\<close>

text \<open>
  A key of the property map names a field of the metadata when the decoder stores its
  value there: its name as written by the encoder folds to the field's name. A field is
  unset when no key that names it carries a non-empty value.
\<close>

definition names_field :: "string \<Rightarrow> string \<Rightarrow> bool" where
  "names_field key f = (foldName (coerce_utf8 key) = f)"

definition field_unset :: "string \<Rightarrow> (string \<times> string) list \<Rightarrow> bool" where
  "field_unset f props = list_all (\<lambda>(k, v). \<not> names_field k f \<or> v = '''') props"

definition no_field :: "string \<Rightarrow> (string \<times> string) list \<Rightarrow> bool" where
  "no_field f props = list_all (\<lambda>(k, v). \<not> names_field k f) props"

text \<open>Every key that names the field carries the value \<open>v\<close>.\<close>

definition field_only :: "string \<Rightarrow> string \<Rightarrow> (string \<times> string) list \<Rightarrow> bool" where
  "field_only f v props = list_all (\<lambda>(k, v'). \<not> names_field k f \<or> v' = v) props"

text \<open>
  The value that a property map gives to a field. The document lists the entries in
  the order of their keys and the decoder stores them one after the other, so the last
  key that names the field decides, and its value arrives as the encoder wrote it; with
  no such key the field keeps its default.
\<close>

definition last_value :: "string \<Rightarrow> (string \<times> string) list \<Rightarrow> string \<Rightarrow> string" where
  "last_value f entries d =
     (case filter (\<lambda>(k, v). names_field k f) entries of
        [] \<Rightarrow> d
      | e # es \<Rightarrow> coerce_utf8 (snd (last (e # es))))"

definition stored_value :: "string \<Rightarrow> (string \<times> string) list \<Rightarrow> string" where
  "stored_value f props = last_value f (sort_key fst props) ''''"

subsection \<open>Example worlds and adapters\<close>

text \<open>An endpoint that answers every request with 200 and the body \<^verbatim>\<open>hello\<close>.\<close>

definition world_ok :: world where
  "world_ok =
     \<lparr>NewRequest_err = (\<lambda>method url. None),
      client_Do = (\<lambda>t r. Inr \<lparr>Status = ''200 OK'', resp_Body = Some (Inr ''hello'')\<rparr>)\<rparr>"

text \<open>An endpoint that answers with 500 and a body.\<close>

definition world_500 :: world where
  "world_500 =
     \<lparr>NewRequest_err = (\<lambda>method url. None),
      client_Do = (\<lambda>t r. Inr \<lparr>Status = ''500 Internal Server Error'',
                               resp_Body = Some (Inr ''oops'')\<rparr>)\<rparr>"

text \<open>An endpoint whose response arrives, and whose body breaks off while it is read.\<close>

definition world_eof :: world where
  "world_eof =
     \<lparr>NewRequest_err = (\<lambda>method url. None),
      client_Do = (\<lambda>t r. Inr \<lparr>Status = ''200 OK'',
                               resp_Body = Some (Inl (Error ''unexpected EOF''))\<rparr>)\<rparr>"

text \<open>A host that cannot be reached.\<close>

definition world_down :: world where
  "world_down =
     \<lparr>NewRequest_err = (\<lambda>method url. None),
      client_Do = (\<lambda>t r. Inl (Error ''connection refused''))\<rparr>"

definition props_api :: "(string \<times> string) list" where
  "props_api = [(''url'', ''http://x/api''), (''method'', ''POST''), (''user'', ''a''), (''password'', ''b'')]"

definition h_api :: "unit HTTPSource" where
  "h_api = \<lparr>metadata = \<lparr>URL = ''http://x/api'', Method = ''POST'', User = ''a'', Password = ''b''\<rparr>,
            logger = ()\<rparr>"

definition props_put :: "(string \<times> string) list" where
  "props_put = [(''url'', ''http://x/api''), (''method'', ''PUT'')]"

definition h_put_nc :: "unit HTTPSource_nc" where
  "h_put_nc = \<lparr>metadata_nc = \<lparr>URL_nc = ''http://x/api'', Method_nc = ''PUT'', Credentials = None\<rparr>,
               logger_nc = ()\<rparr>"

definition h_api_nc :: "unit HTTPSource_nc" where
  "h_api_nc =
     \<lparr>metadata_nc = \<lparr>URL_nc = ''http://x/api'', Method_nc = ''POST'',
                      Credentials = Some \<lparr>cred_User = ''a'', cred_Password = ''b''\<rparr>\<rparr>,
      logger_nc = ()\<rparr>"

definition props_empty_url :: "(string \<times> string) list" where
  "props_empty_url = [(''url'', ''''), (''method'', ''POST'')]"

definition h_user_only :: "unit HTTPSource" where
  "h_user_only =
     \<lparr>metadata = \<lparr>URL = ''http://x/feed'', Method = '''', User = ''a'', Password = ''''\<rparr>,
      logger = ()\<rparr>"

definition h_password_only_nc :: "unit HTTPSource_nc" where
  "h_password_only_nc =
     \<lparr>metadata_nc = \<lparr>URL_nc = ''http://x/feed'', Method_nc = '''',
                      Credentials = Some \<lparr>cred_User = '''', cred_Password = ''b''\<rparr>\<rparr>,
      logger_nc = ()\<rparr>"

definition failing_handler :: handler where
  "failing_handler b = Some (Error ''handler failed'')"

section \<open>Properties\<close>

subsection \<open>The methods, by their results\<close>

lemma get_eq:
  "get w h url =
     (case NewRequest w ''GET'' url None of
        Inl err \<Rightarrow> (Inl err, [])
      | Inr req0 \<Rightarrow>
          (let req = addCredentials req0 (User (metadata h)) (Password (metadata h)) in
           case client_Do w 60 req of
             Inl err \<Rightarrow> (Inl err, [Sent 60 req])
           | Inr resp \<Rightarrow>
               (case resp_Body resp of
                  None \<Rightarrow> (Inl (Panic ''nil pointer dereference''), [Sent 60 req])
                | Some bd \<Rightarrow>
                    (case bd of
                       Inl err \<Rightarrow> (Inl err, [Sent 60 req, BodyRead])
                     | Inr b \<Rightarrow> (Inr b, [Sent 60 req, BodyRead, BodyClosed])))))"
  by (simp add: get_def HTTPSource_get_def Let_def split: sum.splits option.splits)

lemma get_receiver: "snd (HTTPSource_get w url h) = h"
  by (simp add: HTTPSource_get_def Let_def split: sum.splits option.splits)

lemma Read_eq:
  "Read w h handler =
     (case get w h (URL (metadata h)) of
        (Inl err, es) \<Rightarrow> (Some err, es)
      | (Inr b, es) \<Rightarrow> (let _ = handler b in (None, es @ [Handled b])))"
  by (cases "HTTPSource_get w (URL (metadata h)) h")
     (simp add: Read_def HTTPSource_Read_def get_def split: sum.splits prod.splits)

lemma Read_receiver: "snd (HTTPSource_Read w handler h) = h"
  using get_receiver [of w "URL (metadata h)" h]
  by (cases "HTTPSource_get w (URL (metadata h)) h")
     (simp add: HTTPSource_Read_def split: sum.splits prod.splits)

lemma Invoke_eq:
  "Invoke w h data =
     (case NewRequest w (Method (metadata h)) (URL (metadata h)) (Some data) of
        Inl err \<Rightarrow> (Inl err, [])
      | Inr r0 \<Rightarrow>
          (let r1 = Header_Set ''Content-Type'' ''application/json; charset=utf-8'' r0;
               r = addCredentials r1 (User (metadata h)) (Password (metadata h)) in
           case client_Do w 5 r of
             Inl err \<Rightarrow> (Inl err, [Sent 5 r])
           | Inr resp \<Rightarrow>
               (case resp_Body resp of
                  Some bd \<Rightarrow>
                    (case bd of
                       Inl err \<Rightarrow> (Inl err, [Sent 5 r, BodyRead])
                     | Inr d \<Rightarrow>
                         (Inr \<lparr>Data = Some d, Metadata = [(''status'', Status resp)]\<rparr>,
                          [Sent 5 r, BodyRead, BodyClosed]))
                | None \<Rightarrow>
                    (Inr \<lparr>Data = None, Metadata = [(''status'', Status resp)]\<rparr>,
                     [Sent 5 r]))))"
  by (simp add: Invoke_def HTTPSource_Invoke_def Let_def split: sum.splits option.splits)

lemma Invoke_receiver: "snd (HTTPSource_Invoke w data h) = h"
  by (simp add: HTTPSource_Invoke_def Let_def split: sum.splits option.splits)

lemma get_nc_eq:
  "get_nc w h url =
     (case NewRequest w ''GET'' url None of
        Inl err \<Rightarrow> (Inl err, [])
      | Inr req0 \<Rightarrow>
          (let req = addCredentials_nc req0 (Credentials (metadata_nc h)) in
           case client_Do w 60 req of
             Inl err \<Rightarrow> (Inl err, [Sent 60 req])
           | Inr resp \<Rightarrow>
               (case resp_Body resp of
                  None \<Rightarrow> (Inl (Panic ''nil pointer dereference''), [Sent 60 req])
                | Some bd \<Rightarrow>
                    (case bd of
                       Inl err \<Rightarrow> (Inl err, [Sent 60 req, BodyRead])
                     | Inr b \<Rightarrow> (Inr b, [Sent 60 req, BodyRead, BodyClosed])))))"
  by (simp add: get_nc_def HTTPSource_get_nc_def Let_def split: sum.splits option.splits)

lemma get_nc_receiver: "snd (HTTPSource_get_nc w url h) = h"
  by (simp add: HTTPSource_get_nc_def Let_def split: sum.splits option.splits)

lemma Read_nc_eq:
  "Read_nc w h handler =
     (case get_nc w h (URL_nc (metadata_nc h)) of
        (Inl err, es) \<Rightarrow> (Some err, es)
      | (Inr b, es) \<Rightarrow> (let _ = handler b in (None, es @ [Handled b])))"
  by (cases "HTTPSource_get_nc w (URL_nc (metadata_nc h)) h")
     (simp add: Read_nc_def HTTPSource_Read_nc_def get_nc_def split: sum.splits prod.splits)

lemma Read_nc_receiver: "snd (HTTPSource_Read_nc w handler h) = h"
  using get_nc_receiver [of w "URL_nc (metadata_nc h)" h]
  by (cases "HTTPSource_get_nc w (URL_nc (metadata_nc h)) h")
     (simp add: HTTPSource_Read_nc_def split: sum.splits prod.splits)

lemma Invoke_nc_eq:
  "Invoke_nc w h data =
     (case NewRequest w ''POST'' (URL_nc (metadata_nc h)) (Some data) of
        Inl err \<Rightarrow> (Inl err, [])
      | Inr r0 \<Rightarrow>
          (let r1 = Header_Set ''Content-Type'' ''application/json; charset=utf-8'' r0;
               r = addCredentials_nc r1 (Credentials (metadata_nc h)) in
           case client_Do w 5 r of
             Inl err \<Rightarrow> (Inl err, [Sent 5 r])
           | Inr resp \<Rightarrow>
               (Inr None,
                Sent 5 r # (if resp_Body resp \<noteq> None then [BodyClosed] else []))))"
  by (simp add: Invoke_nc_def HTTPSource_Invoke_nc_def Let_def split: sum.splits option.splits)

lemma Invoke_nc_receiver: "snd (HTTPSource_Invoke_nc w data h) = h"
  by (simp add: HTTPSource_Invoke_nc_def Let_def split: sum.splits option.splits)

subsection \<open>The requests a call sends\<close>

lemma addCredentials_keeps:
  "req_Method (addCredentials r u p) = req_Method r"
  "req_URL (addCredentials r u p) = req_URL r"
  "req_Body (addCredentials r u p) = req_Body r"
  by (simp_all add: addCredentials_def addBasicAuthHeader_def Header_Set_def Let_def)

lemma addCredentials_nc_keeps:
  "req_Method (addCredentials_nc r c) = req_Method r"
  "req_URL (addCredentials_nc r c) = req_URL r"
  "req_Body (addCredentials_nc r c) = req_Body r"
  by (simp_all add: addCredentials_nc_def addBasicAuthHeader_def Header_Set_def Let_def
        split: option.splits)

lemma Header_Set_keeps:
  "req_Method (Header_Set k v r) = req_Method r"
  "req_URL (Header_Set k v r) = req_URL r"
  "req_Body (Header_Set k v r) = req_Body r"
  by (simp_all add: Header_Set_def)

lemma sent_requests_append: "sent_requests (es @ es') = sent_requests es @ sent_requests es'"
  by (induction es rule: sent_requests.induct) simp_all

lemma handled_append: "handled (es @ es') = handled es @ handled es'"
  by (induction es rule: handled.induct) simp_all

lemma sent_get:
  "sent_requests (snd (get w h url)) =
     (case NewRequest_err w ''GET'' url of
        Some e \<Rightarrow> []
      | None \<Rightarrow>
          [addCredentials \<lparr>req_Method = ''GET'', req_URL = url, req_Header = [], req_Body = None\<rparr>
             (User (metadata h)) (Password (metadata h))])"
  by (simp add: get_eq NewRequest_def Let_def split: option.splits sum.splits)

lemma sent_get_nc:
  "sent_requests (snd (get_nc w h url)) =
     (case NewRequest_err w ''GET'' url of
        Some e \<Rightarrow> []
      | None \<Rightarrow>
          [addCredentials_nc \<lparr>req_Method = ''GET'', req_URL = url, req_Header = [], req_Body = None\<rparr>
             (Credentials (metadata_nc h))])"
  by (simp add: get_nc_eq NewRequest_def Let_def split: option.splits sum.splits)

lemma handled_get: "handled (snd (get w h url)) = []"
  by (simp add: get_eq Let_def split: option.splits sum.splits)

lemma handled_get_nc: "handled (snd (get_nc w h url)) = []"
  by (simp add: get_nc_eq Let_def split: option.splits sum.splits)

lemma Read_cases:
  "Read w h f =
     (case fst (get w h (URL (metadata h))) of
        Inl e \<Rightarrow> (Some e, snd (get w h (URL (metadata h))))
      | Inr b \<Rightarrow> (None, snd (get w h (URL (metadata h))) @ [Handled b]))"
  by (cases "get w h (URL (metadata h))") (simp add: Read_eq split: sum.splits)

lemma Read_nc_cases:
  "Read_nc w h f =
     (case fst (get_nc w h (URL_nc (metadata_nc h))) of
        Inl e \<Rightarrow> (Some e, snd (get_nc w h (URL_nc (metadata_nc h))))
      | Inr b \<Rightarrow> (None, snd (get_nc w h (URL_nc (metadata_nc h))) @ [Handled b]))"
  by (cases "get_nc w h (URL_nc (metadata_nc h))") (simp add: Read_nc_eq split: sum.splits)

lemma sent_Read:
  "sent_requests (snd (Read w h f)) = sent_requests (snd (get w h (URL (metadata h))))"
  by (simp add: Read_cases sent_requests_append split: sum.splits)

lemma sent_Read_nc:
  "sent_requests (snd (Read_nc w h f)) = sent_requests (snd (get_nc w h (URL_nc (metadata_nc h))))"
  by (simp add: Read_nc_cases sent_requests_append split: sum.splits)

lemma sent_Invoke:
  "sent_requests (snd (Invoke w h d)) =
     (case NewRequest_err w (Method (metadata h)) (URL (metadata h)) of
        Some e \<Rightarrow> []
      | None \<Rightarrow>
          [addCredentials
             (Header_Set ''Content-Type'' ''application/json; charset=utf-8''
                \<lparr>req_Method = (if Method (metadata h) = '''' then ''GET'' else Method (metadata h)),
                 req_URL = URL (metadata h), req_Header = [], req_Body = Some d\<rparr>)
             (User (metadata h)) (Password (metadata h))])"
  by (simp add: Invoke_eq NewRequest_def Let_def split: option.splits sum.splits)

lemma sent_Invoke_nc:
  "sent_requests (snd (Invoke_nc w h d)) =
     (case NewRequest_err w ''POST'' (URL_nc (metadata_nc h)) of
        Some e \<Rightarrow> []
      | None \<Rightarrow>
          [addCredentials_nc
             (Header_Set ''Content-Type'' ''application/json; charset=utf-8''
                \<lparr>req_Method = ''POST'', req_URL = URL_nc (metadata_nc h), req_Header = [],
                 req_Body = Some d\<rparr>)
             (Credentials (metadata_nc h))])"
  by (simp add: Invoke_nc_eq NewRequest_def Let_def split: option.splits sum.splits)

subsection \<open>The example calls\<close>

lemma URL_examples:
  "URL (metadata h_api) = ''http://x/api''" "URL_nc (metadata_nc h_put_nc) = ''http://x/api''"
  by (simp_all add: h_api_def h_put_nc_def)

lemma get_ok:
  "get world_ok h_api ''http://x/api'' =
     (Inr ''hello'',
      [Sent 60 (addCredentials
         \<lparr>req_Method = ''GET'', req_URL = ''http://x/api'', req_Header = [], req_Body = None\<rparr>
         ''a'' ''b''),
       BodyRead, BodyClosed])"
  by (simp add: get_eq NewRequest_def world_ok_def h_api_def)

lemma get_down:
  "get world_down h_api ''http://x/api'' =
     (Inl (Error ''connection refused''),
      [Sent 60 (addCredentials
         \<lparr>req_Method = ''GET'', req_URL = ''http://x/api'', req_Header = [], req_Body = None\<rparr>
         ''a'' ''b'')])"
  by (simp add: get_eq NewRequest_def world_down_def h_api_def)

lemma get_nc_ok:
  "get_nc world_ok h_put_nc ''http://x/api'' =
     (Inr ''hello'',
      [Sent 60 \<lparr>req_Method = ''GET'', req_URL = ''http://x/api'', req_Header = [], req_Body = None\<rparr>,
       BodyRead, BodyClosed])"
  by (simp add: get_nc_eq NewRequest_def world_ok_def h_put_nc_def addCredentials_nc_def)

lemma get_nc_down:
  "get_nc world_down h_put_nc ''http://x/api'' =
     (Inl (Error ''connection refused''),
      [Sent 60 \<lparr>req_Method = ''GET'', req_URL = ''http://x/api'', req_Header = [], req_Body = None\<rparr>])"
  by (simp add: get_nc_eq NewRequest_def world_down_def h_put_nc_def addCredentials_nc_def)

subsection \<open>Read\<close>

text \<open>
  C5. Whatever the configured method, every request that \<^verbatim>\<open>Read\<close> sends has the method
  GET and the URL of the metadata, and \<^verbatim>\<open>Read\<close> sends exactly one request once
  \<^verbatim>\<open>http.NewRequest\<close> accepts that URL. Both versions.
\<close>

theorem Read_issues_GET:
  "(\<forall>r \<in> set (sent_requests (snd (Read w h f))).
      req_Method r = ''GET'' \<and> req_URL r = URL (metadata h)) \<and>
   (NewRequest_err w ''GET'' (URL (metadata h)) = None \<longrightarrow>
      length (sent_requests (snd (Read w h f))) = 1) \<and>
   (\<forall>r \<in> set (sent_requests (snd (Read_nc w hn f))).
      req_Method r = ''GET'' \<and> req_URL r = URL_nc (metadata_nc hn)) \<and>
   (NewRequest_err w ''GET'' (URL_nc (metadata_nc hn)) = None \<longrightarrow>
      length (sent_requests (snd (Read_nc w hn f))) = 1)"
  by (simp add: sent_Read sent_Read_nc sent_get sent_get_nc addCredentials_keeps
        addCredentials_nc_keeps split: option.splits)

theorem Read_issues_GET_witness:
  "Method (metadata h_api) = ''POST'' \<and>
   map req_Method (sent_requests (snd (Read world_ok h_api failing_handler))) = [''GET''] \<and>
   map req_URL (sent_requests (snd (Read world_ok h_api failing_handler))) = [''http://x/api''] \<and>
   Method_nc (metadata_nc h_put_nc) = ''PUT'' \<and>
   map req_Method (sent_requests (snd (Read_nc world_ok h_put_nc failing_handler))) = [''GET''] \<and>
   map req_URL (sent_requests (snd (Read_nc world_ok h_put_nc failing_handler))) = [''http://x/api'']"
  using Read_issues_GET [of world_ok h_api failing_handler h_put_nc]
  by (simp add: sent_Read sent_Read_nc sent_get sent_get_nc addCredentials_keeps
        addCredentials_nc_keeps world_ok_def h_api_def h_put_nc_def)

text \<open>
  C10. When \<^verbatim>\<open>get\<close> returns data, \<^verbatim>\<open>Read\<close> runs the handler exactly once, on that
  data; when \<^verbatim>\<open>get\<close> fails, \<^verbatim>\<open>Read\<close> returns that very error and the handler does
  not run. Both versions.
\<close>

theorem Read_runs_handler_once:
  "(\<forall>b. fst (get w h (URL (metadata h))) = Inr b \<longrightarrow> handled (snd (Read w h f)) = [b]) \<and>
   (\<forall>e. fst (get w h (URL (metadata h))) = Inl e \<longrightarrow>
      fst (Read w h f) = Some e \<and> handled (snd (Read w h f)) = []) \<and>
   (\<forall>b. fst (get_nc w hn (URL_nc (metadata_nc hn))) = Inr b \<longrightarrow>
      handled (snd (Read_nc w hn f)) = [b]) \<and>
   (\<forall>e. fst (get_nc w hn (URL_nc (metadata_nc hn))) = Inl e \<longrightarrow>
      fst (Read_nc w hn f) = Some e \<and> handled (snd (Read_nc w hn f)) = [])"
  by (simp add: Read_cases Read_nc_cases handled_append handled_get handled_get_nc)

theorem Read_runs_handler_once_witness:
  "handled (snd (Read world_ok h_api failing_handler)) = [''hello''] \<and>
   fst (Read world_down h_api failing_handler) = Some (Error ''connection refused'') \<and>
   handled (snd (Read world_down h_api failing_handler)) = [] \<and>
   handled (snd (Read_nc world_ok h_put_nc failing_handler)) = [''hello''] \<and>
   fst (Read_nc world_down h_put_nc failing_handler) = Some (Error ''connection refused'') \<and>
   handled (snd (Read_nc world_down h_put_nc failing_handler)) = []"
  using Read_runs_handler_once [of world_ok h_api failing_handler h_put_nc]
        Read_runs_handler_once [of world_down h_api failing_handler h_put_nc]
  by (simp add: URL_examples get_ok get_down get_nc_ok get_nc_down)

text \<open>
  C4, as the claim states it, fails: the round trip succeeds, the handler reports a
  failure, and \<^verbatim>\<open>Read\<close> returns nil. Both versions.
\<close>

theorem Read_handler_failure_counterexample:
  "fst (get world_ok h_api (URL (metadata h_api))) = Inr ''hello'' \<and>
   failing_handler ''hello'' = Some (Error ''handler failed'') \<and>
   fst (Read world_ok h_api failing_handler) = None \<and>
   fst (get_nc world_ok h_put_nc (URL_nc (metadata_nc h_put_nc))) = Inr ''hello'' \<and>
   fst (Read_nc world_ok h_put_nc failing_handler) = None"
  by (simp add: Read_cases Read_nc_cases URL_examples get_ok get_nc_ok failing_handler_def)

text \<open>
  C4, amended. When \<^verbatim>\<open>get\<close> returns data, \<^verbatim>\<open>Read\<close> hands it to the handler and
  returns nil, whatever the handler returns: the handler's result is dropped. Both
  versions.
\<close>

theorem Read_ignores_handler_result:
  "(fst (get w h (URL (metadata h))) = Inr b \<longrightarrow>
      fst (Read w h f) = None \<and>
      snd (Read w h f) = snd (get w h (URL (metadata h))) @ [Handled b]) \<and>
   (fst (get_nc w hn (URL_nc (metadata_nc hn))) = Inr b \<longrightarrow>
      fst (Read_nc w hn f) = None \<and>
      snd (Read_nc w hn f) = snd (get_nc w hn (URL_nc (metadata_nc hn))) @ [Handled b])"
  by (simp add: Read_cases Read_nc_cases)

theorem Read_ignores_handler_result_witness:
  "fst (Read world_ok h_api failing_handler) = None \<and>
   last (snd (Read world_ok h_api failing_handler)) = Handled ''hello'' \<and>
   fst (Read_nc world_ok h_put_nc failing_handler) = None \<and>
   last (snd (Read_nc world_ok h_put_nc failing_handler)) = Handled ''hello''"
  using Read_ignores_handler_result [of world_ok h_api "''hello''" failing_handler h_put_nc]
  by (simp add: URL_examples get_ok get_nc_ok)

subsection \<open>Invoke\<close>

text \<open>
  \<^verbatim>\<open>Invoke\<close> of http.go sends the configured method (GET when none is configured);
  \<^verbatim>\<open>Invoke\<close> of part\_000 sends POST.
\<close>

lemma Invoke_uses_configured_method:
  "\<forall>r \<in> set (sent_requests (snd (Invoke w h d))).
     req_Method r = (if Method (metadata h) = '''' then ''GET'' else Method (metadata h)) \<and>
     req_URL r = URL (metadata h) \<and> req_Body r = Some d"
  by (simp add: sent_Invoke addCredentials_keeps Header_Set_keeps split: option.splits)

lemma Invoke_nc_uses_POST:
  "\<forall>r \<in> set (sent_requests (snd (Invoke_nc w h d))).
     req_Method r = ''POST'' \<and> req_URL r = URL_nc (metadata_nc h) \<and> req_Body r = Some d"
  by (simp add: sent_Invoke_nc addCredentials_nc_keeps Header_Set_keeps split: option.splits)

lemma Invoke_no_request:
  "NewRequest w (Method (metadata h)) (URL (metadata h)) (Some d) = Inl e \<Longrightarrow>
   sent_requests (snd (Invoke w h d)) = []"
  by (simp add: Invoke_eq)

lemma Invoke_answered:
  assumes "NewRequest w (Method (metadata h)) (URL (metadata h)) (Some d) = Inr r0"
  shows "sent_requests (snd (Invoke w h d)) =
           [addCredentials (Header_Set ''Content-Type'' ''application/json; charset=utf-8'' r0)
              (User (metadata h)) (Password (metadata h))]"
    and "client_Do w 5
           (addCredentials (Header_Set ''Content-Type'' ''application/json; charset=utf-8'' r0)
              (User (metadata h)) (Password (metadata h))) = Inr resp \<Longrightarrow>
         fst (Invoke w h d) =
           (case resp_Body resp of
              None \<Rightarrow> Inr \<lparr>Data = None, Metadata = [(''status'', Status resp)]\<rparr>
            | Some (Inr b) \<Rightarrow> Inr \<lparr>Data = Some b, Metadata = [(''status'', Status resp)]\<rparr>
            | Some (Inl err) \<Rightarrow> Inl err)"
  using assms by (simp_all add: Invoke_eq Let_def split: sum.splits option.splits)

lemma Invoke_nc_no_request:
  "NewRequest w ''POST'' (URL_nc (metadata_nc h)) (Some d) = Inl e \<Longrightarrow>
   sent_requests (snd (Invoke_nc w h d)) = []"
  by (simp add: Invoke_nc_eq)

lemma Invoke_nc_answered:
  assumes "NewRequest w ''POST'' (URL_nc (metadata_nc h)) (Some d) = Inr r0"
  shows "sent_requests (snd (Invoke_nc w h d)) =
           [addCredentials_nc (Header_Set ''Content-Type'' ''application/json; charset=utf-8'' r0)
              (Credentials (metadata_nc h))]"
    and "client_Do w 5
           (addCredentials_nc (Header_Set ''Content-Type'' ''application/json; charset=utf-8'' r0)
              (Credentials (metadata_nc h))) = Inr resp \<Longrightarrow>
         \<not> isl (fst (Invoke_nc w h d))"
  using assms by (simp_all add: Invoke_nc_eq Let_def split: sum.splits option.splits)

text \<open>
  C2, as the claim states it, fails for http.go: the transport returns a response, the
  reading of its body fails, and \<^verbatim>\<open>Invoke\<close> returns that error.
\<close>

theorem Invoke_read_error_counterexample:
  "client_Do world_eof 5 (hd (sent_requests (snd (Invoke world_eof h_api ''{}'')))) =
     Inr \<lparr>Status = ''200 OK'', resp_Body = Some (Inl (Error ''unexpected EOF''))\<rparr> \<and>
   fst (Invoke world_eof h_api ''{}'') = Inl (Error ''unexpected EOF'')"
  by (simp add: Invoke_eq NewRequest_def world_eof_def h_api_def)

text \<open>
  C2, amended. When the transport returns a response to the request of \<^verbatim>\<open>Invoke\<close>,
  whatever its status line: \<^verbatim>\<open>Invoke\<close> of http.go returns a result whose metadata
  is the status line of the response under the key \<^verbatim>\<open>status\<close> (with the body as
  data, when there is one) if the body is read without error or is nil, and returns the
  error of the reading otherwise; \<^verbatim>\<open>Invoke\<close> of part\_000 returns no error.
\<close>

theorem Invoke_reports_status:
  "(\<forall>r \<in> set (sent_requests (snd (Invoke w h d))). \<forall>resp. client_Do w 5 r = Inr resp \<longrightarrow>
      (case resp_Body resp of
         None \<Rightarrow> fst (Invoke w h d) = Inr \<lparr>Data = None, Metadata = [(''status'', Status resp)]\<rparr>
       | Some (Inr b) \<Rightarrow>
           fst (Invoke w h d) = Inr \<lparr>Data = Some b, Metadata = [(''status'', Status resp)]\<rparr>
       | Some (Inl err) \<Rightarrow> fst (Invoke w h d) = Inl err)) \<and>
   (\<forall>r \<in> set (sent_requests (snd (Invoke_nc w hn d))). \<forall>resp. client_Do w 5 r = Inr resp \<longrightarrow>
      \<not> isl (fst (Invoke_nc w hn d)))"
proof (intro conjI ballI allI impI)
  fix r resp
  assume r: "r \<in> set (sent_requests (snd (Invoke w h d)))" and a: "client_Do w 5 r = Inr resp"
  show "case resp_Body resp of
         None \<Rightarrow> fst (Invoke w h d) = Inr \<lparr>Data = None, Metadata = [(''status'', Status resp)]\<rparr>
       | Some (Inr b) \<Rightarrow>
           fst (Invoke w h d) = Inr \<lparr>Data = Some b, Metadata = [(''status'', Status resp)]\<rparr>
       | Some (Inl err) \<Rightarrow> fst (Invoke w h d) = Inl err"
  proof (cases "NewRequest w (Method (metadata h)) (URL (metadata h)) (Some d)")
    case (Inl e)
    with r show ?thesis by (simp add: Invoke_no_request)
  next
    case (Inr r0)
    from r have "r = addCredentials (Header_Set ''Content-Type'' ''application/json; charset=utf-8'' r0)
              (User (metadata h)) (Password (metadata h))"
      by (simp add: Invoke_answered(1) [OF Inr])
    with a show ?thesis
      by (simp add: Invoke_answered(2) [OF Inr] split: option.splits sum.splits)
  qed
next
  fix r resp
  assume r: "r \<in> set (sent_requests (snd (Invoke_nc w hn d)))" and a: "client_Do w 5 r = Inr resp"
  show "\<not> isl (fst (Invoke_nc w hn d))"
  proof (cases "NewRequest w ''POST'' (URL_nc (metadata_nc hn)) (Some d)")
    case (Inl e)
    with r show ?thesis by (simp add: Invoke_nc_no_request)
  next
    case (Inr r0)
    from r have "r = addCredentials_nc (Header_Set ''Content-Type'' ''application/json; charset=utf-8'' r0)
              (Credentials (metadata_nc hn))"
      by (simp add: Invoke_nc_answered(1) [OF Inr])
    with a show ?thesis
      by (simp add: Invoke_nc_answered(2) [OF Inr])
  qed
qed

theorem Invoke_reports_status_witness:
  "fst (Invoke world_500 h_api ''{}'') =
     Inr \<lparr>Data = Some ''oops'', Metadata = [(''status'', ''500 Internal Server Error'')]\<rparr> \<and>
   fst (Invoke world_eof h_api ''{}'') = Inl (Error ''unexpected EOF'') \<and>
   \<not> isl (fst (Invoke_nc world_500 h_put_nc ''{}''))"
  using Invoke_reports_status [of world_500 h_api "''{}''" h_put_nc]
        Invoke_reports_status [of world_eof h_api "''{}''" h_put_nc]
  by (simp add: sent_Invoke sent_Invoke_nc world_500_def world_eof_def h_api_def h_put_nc_def)

subsection \<open>Credentials\<close>

lemma Header_Values_Set:
  "Header_Values (Header_Set k v r) k' = (if k' = k then Some [v] else Header_Values r k')"
  by (simp add: Header_Values_def Header_Set_def update_conv')

lemma Authorization_addCredentials:
  "Header_Values (addCredentials r u p) ''Authorization'' =
     (if u \<noteq> '''' \<and> p \<noteq> '''' then Some [''Basic '' @ EncodeToString (u @ '':'' @ p)]
      else Header_Values r ''Authorization'')"
  by (simp add: addCredentials_def addBasicAuthHeader_def Header_Values_Set Let_def)

lemma Authorization_addCredentials_nc:
  "Header_Values (addCredentials_nc r cr) ''Authorization'' =
     (case cr of
        None \<Rightarrow> Header_Values r ''Authorization''
      | Some c \<Rightarrow>
          if cred_User c \<noteq> '''' \<and> cred_Password c \<noteq> ''''
          then Some [''Basic '' @ EncodeToString (cred_User c @ '':'' @ cred_Password c)]
          else Header_Values r ''Authorization'')"
  by (simp add: addCredentials_nc_def addBasicAuthHeader_def Header_Values_Set Let_def
        split: option.splits)

lemma Authorization_fresh:
  "Header_Values \<lparr>req_Method = m, req_URL = u, req_Header = [], req_Body = b\<rparr> k = None"
  "Header_Values
     (Header_Set ''Content-Type'' v \<lparr>req_Method = m, req_URL = u, req_Header = [], req_Body = b\<rparr>)
     ''Authorization'' = None"
  by (simp_all add: Header_Values_def Header_Set_def)

lemma addCredentials_partial:
  "addCredentials r [] p = r" "addCredentials r u [] = r"
  by (simp_all add: addCredentials_def)

lemma addCredentials_nc_partial:
  "addCredentials_nc r None = r"
  "cred_User c = [] \<Longrightarrow> addCredentials_nc r (Some c) = r"
  "cred_Password c = [] \<Longrightarrow> addCredentials_nc r (Some c) = r"
  by (simp_all add: addCredentials_nc_def)

lemma get_partial:
  assumes "\<not> (User (metadata h) \<noteq> '''' \<and> Password (metadata h) \<noteq> '''')"
  shows "get w h url = get w (h\<lparr>metadata := (metadata h)\<lparr>User := '''', Password := ''''\<rparr>\<rparr>) url"
proof -
  have a: "\<And>r. addCredentials r (User (metadata h)) (Password (metadata h)) = r"
    using assms by (auto simp add: addCredentials_def)
  have b: "\<And>r. addCredentials r
        (User (metadata (h\<lparr>metadata := (metadata h)\<lparr>User := '''', Password := ''''\<rparr>\<rparr>)))
        (Password (metadata (h\<lparr>metadata := (metadata h)\<lparr>User := '''', Password := ''''\<rparr>\<rparr>))) = r"
    by (simp add: addCredentials_def)
  have c: "Method (metadata (h\<lparr>metadata := (metadata h)\<lparr>User := '''', Password := ''''\<rparr>\<rparr>)) = Method (metadata h)"
    "URL (metadata (h\<lparr>metadata := (metadata h)\<lparr>User := '''', Password := ''''\<rparr>\<rparr>)) = URL (metadata h)"
    by simp_all
  show ?thesis
    unfolding get_eq Let_def a b by (rule refl)
qed

lemma Invoke_partial:
  assumes "\<not> (User (metadata h) \<noteq> '''' \<and> Password (metadata h) \<noteq> '''')"
  shows "Invoke w h d = Invoke w (h\<lparr>metadata := (metadata h)\<lparr>User := '''', Password := ''''\<rparr>\<rparr>) d"
proof -
  have a: "\<And>r. addCredentials r (User (metadata h)) (Password (metadata h)) = r"
    using assms by (auto simp add: addCredentials_def)
  have b: "\<And>r. addCredentials r
        (User (metadata (h\<lparr>metadata := (metadata h)\<lparr>User := '''', Password := ''''\<rparr>\<rparr>)))
        (Password (metadata (h\<lparr>metadata := (metadata h)\<lparr>User := '''', Password := ''''\<rparr>\<rparr>))) = r"
    by (simp add: addCredentials_def)
  have c: "Method (metadata (h\<lparr>metadata := (metadata h)\<lparr>User := '''', Password := ''''\<rparr>\<rparr>)) = Method (metadata h)"
    "URL (metadata (h\<lparr>metadata := (metadata h)\<lparr>User := '''', Password := ''''\<rparr>\<rparr>)) = URL (metadata h)"
    by simp_all
  show ?thesis
    unfolding Invoke_eq Let_def a b c by (rule refl)
qed

lemma get_nc_partial:
  assumes "Credentials (metadata_nc hn) = Some c" "\<not> (cred_User c \<noteq> '''' \<and> cred_Password c \<noteq> '''')"
  shows "get_nc w hn url = get_nc w (hn\<lparr>metadata_nc := (metadata_nc hn)\<lparr>Credentials := None\<rparr>\<rparr>) url"
proof -
  have a: "\<And>r. addCredentials_nc r (Credentials (metadata_nc hn)) = r"
    using assms by (auto simp add: addCredentials_nc_def)
  have b: "\<And>r. addCredentials_nc r
        (Credentials (metadata_nc (hn\<lparr>metadata_nc := (metadata_nc hn)\<lparr>Credentials := None\<rparr>\<rparr>))) = r"
    by (simp add: addCredentials_nc_def)
  have c: "URL_nc (metadata_nc (hn\<lparr>metadata_nc := (metadata_nc hn)\<lparr>Credentials := None\<rparr>\<rparr>)) = URL_nc (metadata_nc hn)"
    by simp
  show ?thesis
    unfolding get_nc_eq Let_def a b by (rule refl)
qed

lemma Invoke_nc_partial:
  assumes "Credentials (metadata_nc hn) = Some c" "\<not> (cred_User c \<noteq> '''' \<and> cred_Password c \<noteq> '''')"
  shows "Invoke_nc w hn d = Invoke_nc w (hn\<lparr>metadata_nc := (metadata_nc hn)\<lparr>Credentials := None\<rparr>\<rparr>) d"
proof -
  have a: "\<And>r. addCredentials_nc r (Credentials (metadata_nc hn)) = r"
    using assms by (auto simp add: addCredentials_nc_def)
  have b: "\<And>r. addCredentials_nc r
        (Credentials (metadata_nc (hn\<lparr>metadata_nc := (metadata_nc hn)\<lparr>Credentials := None\<rparr>\<rparr>))) = r"
    by (simp add: addCredentials_nc_def)
  have c: "URL_nc (metadata_nc (hn\<lparr>metadata_nc := (metadata_nc hn)\<lparr>Credentials := None\<rparr>\<rparr>)) = URL_nc (metadata_nc hn)"
    by simp
  show ?thesis
    unfolding Invoke_nc_eq Let_def a b c by (rule refl)
qed

lemma partial_credentials_as_none:
  "(\<not> (User (metadata h) \<noteq> '''' \<and> Password (metadata h) \<noteq> '''') \<longrightarrow>
      Read w h f = Read w (h\<lparr>metadata := (metadata h)\<lparr>User := '''', Password := ''''\<rparr>\<rparr>) f \<and>
      Invoke w h d = Invoke w (h\<lparr>metadata := (metadata h)\<lparr>User := '''', Password := ''''\<rparr>\<rparr>) d) \<and>
   (\<forall>c. Credentials (metadata_nc hn) = Some c \<and>
        \<not> (cred_User c \<noteq> '''' \<and> cred_Password c \<noteq> '''') \<longrightarrow>
      Read_nc w hn f = Read_nc w (hn\<lparr>metadata_nc := (metadata_nc hn)\<lparr>Credentials := None\<rparr>\<rparr>) f \<and>
      Invoke_nc w hn d =
        Invoke_nc w (hn\<lparr>metadata_nc := (metadata_nc hn)\<lparr>Credentials := None\<rparr>\<rparr>) d)"
proof (intro conjI impI allI)
  assume p: "\<not> (User (metadata h) \<noteq> '''' \<and> Password (metadata h) \<noteq> '''')"
  show "Read w h f = Read w (h\<lparr>metadata := (metadata h)\<lparr>User := '''', Password := ''''\<rparr>\<rparr>) f"
    using get_partial [OF p, of w "URL (metadata h)"] by (simp add: Read_eq)
  show "Invoke w h d = Invoke w (h\<lparr>metadata := (metadata h)\<lparr>User := '''', Password := ''''\<rparr>\<rparr>) d"
    by (rule Invoke_partial [OF p])
next
  fix c
  assume "Credentials (metadata_nc hn) = Some c \<and> \<not> (cred_User c \<noteq> '''' \<and> cred_Password c \<noteq> '''')"
  then have c: "Credentials (metadata_nc hn) = Some c" "\<not> (cred_User c \<noteq> '''' \<and> cred_Password c \<noteq> '''')"
    by simp_all
  show "Read_nc w hn f = Read_nc w (hn\<lparr>metadata_nc := (metadata_nc hn)\<lparr>Credentials := None\<rparr>\<rparr>) f"
    using get_nc_partial [OF c, of w "URL_nc (metadata_nc hn)"] by (simp add: Read_nc_eq)
  show "Invoke_nc w hn d =
        Invoke_nc w (hn\<lparr>metadata_nc := (metadata_nc hn)\<lparr>Credentials := None\<rparr>\<rparr>) d"
    by (rule Invoke_nc_partial [OF c])
qed

lemma sent_Authorization:
  "(\<forall>r \<in> set (sent_requests (snd (Read w h f)) @ sent_requests (snd (Invoke w h d))).
      Header_Values r ''Authorization'' =
        (if User (metadata h) \<noteq> '''' \<and> Password (metadata h) \<noteq> ''''
         then Some [''Basic '' @ EncodeToString (User (metadata h) @ '':'' @ Password (metadata h))]
         else None)) \<and>
   (\<forall>r \<in> set (sent_requests (snd (Read_nc w hn f)) @ sent_requests (snd (Invoke_nc w hn d))).
      Header_Values r ''Authorization'' =
        (case Credentials (metadata_nc hn) of
           None \<Rightarrow> None
         | Some c \<Rightarrow>
             if cred_User c \<noteq> '''' \<and> cred_Password c \<noteq> ''''
             then Some [''Basic '' @ EncodeToString (cred_User c @ '':'' @ cred_Password c)]
             else None))"
  by (auto simp add: sent_Read sent_Read_nc sent_get sent_get_nc sent_Invoke sent_Invoke_nc
        Authorization_addCredentials Authorization_addCredentials_nc Authorization_fresh
        split: option.splits)

text \<open>
  C3. Every request that \<^verbatim>\<open>Read\<close> or \<^verbatim>\<open>Invoke\<close> sends carries the header
  \<^verbatim>\<open>Authorization\<close> with the one value \<^verbatim>\<open>Basic\<close> base64(user:password) when user and
  password are both non-empty, and no \<^verbatim>\<open>Authorization\<close> header in every other case
  (for part\_000 also when the credentials pointer is nil). With a user or a password
  missing, the call does all it does with no credentials at all: nothing fails on
  their account. Both versions.
\<close>

theorem Authorization_iff_both_credentials:
  "(\<forall>r \<in> set (sent_requests (snd (Read w h f)) @ sent_requests (snd (Invoke w h d))).
      Header_Values r ''Authorization'' =
        (if User (metadata h) \<noteq> '''' \<and> Password (metadata h) \<noteq> ''''
         then Some [''Basic '' @ EncodeToString (User (metadata h) @ '':'' @ Password (metadata h))]
         else None)) \<and>
   (\<forall>r \<in> set (sent_requests (snd (Read_nc w hn f)) @ sent_requests (snd (Invoke_nc w hn d))).
      Header_Values r ''Authorization'' =
        (case Credentials (metadata_nc hn) of
           None \<Rightarrow> None
         | Some c \<Rightarrow>
             if cred_User c \<noteq> '''' \<and> cred_Password c \<noteq> ''''
             then Some [''Basic '' @ EncodeToString (cred_User c @ '':'' @ cred_Password c)]
             else None)) \<and>
   (\<not> (User (metadata h) \<noteq> '''' \<and> Password (metadata h) \<noteq> '''') \<longrightarrow>
      Read w h f = Read w (h\<lparr>metadata := (metadata h)\<lparr>User := '''', Password := ''''\<rparr>\<rparr>) f \<and>
      Invoke w h d = Invoke w (h\<lparr>metadata := (metadata h)\<lparr>User := '''', Password := ''''\<rparr>\<rparr>) d) \<and>
   (\<forall>c. Credentials (metadata_nc hn) = Some c \<and>
        \<not> (cred_User c \<noteq> '''' \<and> cred_Password c \<noteq> '''') \<longrightarrow>
      Read_nc w hn f = Read_nc w (hn\<lparr>metadata_nc := (metadata_nc hn)\<lparr>Credentials := None\<rparr>\<rparr>) f \<and>
      Invoke_nc w hn d =
        Invoke_nc w (hn\<lparr>metadata_nc := (metadata_nc hn)\<lparr>Credentials := None\<rparr>\<rparr>) d)"
  using sent_Authorization [of w h f d hn] partial_credentials_as_none [of h w f d hn]
  by blast

theorem Authorization_iff_both_credentials_witness:
  "map (\<lambda>r. Header_Values r ''Authorization'') (sent_requests (snd (Invoke world_ok h_api ''{}'')))
     = [Some [''Basic YTpi'']] \<and>
   map (\<lambda>r. Header_Values r ''Authorization'')
     (sent_requests (snd (Read world_ok h_user_only failing_handler))) = [None] \<and>
   map (\<lambda>r. Header_Values r ''Authorization'')
     (sent_requests (snd (Read_nc world_ok h_api_nc failing_handler))) = [Some [''Basic YTpi'']] \<and>
   map (\<lambda>r. Header_Values r ''Authorization'')
     (sent_requests (snd (Invoke_nc world_ok h_password_only_nc ''{}''))) = [None] \<and>
   fst (Read world_ok h_user_only failing_handler) = None \<and>
   \<not> isl (fst (Invoke_nc world_ok h_password_only_nc ''{}''))"
  using Authorization_iff_both_credentials [of world_ok h_api failing_handler "''{}''" h_api_nc]
        Authorization_iff_both_credentials
          [of world_ok h_user_only failing_handler "''{}''" h_password_only_nc]
  by (simp add: sent_Read sent_Read_nc sent_get sent_get_nc sent_Invoke sent_Invoke_nc
        Read_cases get_eq Invoke_nc_eq NewRequest_def
        world_ok_def h_api_def h_api_nc_def h_user_only_def h_password_only_nc_def
        Authorization_addCredentials Authorization_addCredentials_nc Authorization_fresh
        addCredentials_partial addCredentials_nc_partial enc6_def encodeStd_def)

subsection \<open>Closing the response body\<close>

text \<open>
  C6 at the failing input: the response arrives and its body breaks off while it is
  read. \<^verbatim>\<open>Read\<close> (both versions) and \<^verbatim>\<open>Invoke\<close> of http.go return the error of the
  reading with the body read and not closed.
\<close>

theorem body_left_open_on_read_error:
  "fst (Read world_eof h_api failing_handler) = Some (Error ''unexpected EOF'') \<and>
   BodyRead \<in> set (snd (Read world_eof h_api failing_handler)) \<and>
   BodyClosed \<notin> set (snd (Read world_eof h_api failing_handler)) \<and>
   fst (Invoke world_eof h_api ''{}'') = Inl (Error ''unexpected EOF'') \<and>
   BodyRead \<in> set (snd (Invoke world_eof h_api ''{}'')) \<and>
   BodyClosed \<notin> set (snd (Invoke world_eof h_api ''{}'')) \<and>
   fst (Read_nc world_eof h_put_nc failing_handler) = Some (Error ''unexpected EOF'') \<and>
   BodyRead \<in> set (snd (Read_nc world_eof h_put_nc failing_handler)) \<and>
   BodyClosed \<notin> set (snd (Read_nc world_eof h_put_nc failing_handler))"
  by (simp add: Read_eq Read_nc_eq get_eq get_nc_eq Invoke_eq NewRequest_def world_eof_def
        h_api_def h_put_nc_def)

subsection \<open>The descriptor after initialization\<close>

lemma serve_receiver: "snd (serve h c) = h"
proof (cases c)
  case (ReadCall w handler)
  then show ?thesis
    using Read_receiver [of w handler h] by (simp add: split_beta)
next
  case (InvokeCall w data)
  then show ?thesis
    using Invoke_receiver [of w data h] by (simp add: split_beta)
next
  case OperationsCall
  then show ?thesis
    by (simp add: HTTPSource_Operations_def)
qed

lemma serve_nc_receiver: "snd (serve_nc h c) = h"
proof (cases c)
  case (ReadCall w handler)
  then show ?thesis
    using Read_nc_receiver [of w handler h] by (simp add: split_beta)
next
  case (InvokeCall w data)
  then show ?thesis
    using Invoke_nc_receiver [of w data h] by (simp add: split_beta)
next
  case OperationsCall
  then show ?thesis
    by (simp add: HTTPSource_Operations_nc_def)
qed

text \<open>
  C8. \<^verbatim>\<open>Read\<close>, \<^verbatim>\<open>Invoke\<close> and \<^verbatim>\<open>Operations\<close> return the adapter with the metadata
  they found, on every path through their bodies; so after any sequence of such calls,
  in any worlds, the metadata of the adapter is the metadata it had before the sequence.
  Both versions.
\<close>

theorem descriptor_unchanged:
  "metadata (snd (HTTPSource_Read w handler h)) = metadata h \<and>
   metadata (snd (HTTPSource_Invoke w d h)) = metadata h \<and>
   metadata (snd (HTTPSource_Operations h)) = metadata h \<and>
   metadata (snd (serve_all h cs)) = metadata h \<and>
   metadata_nc (snd (HTTPSource_Read_nc w handler hn)) = metadata_nc hn \<and>
   metadata_nc (snd (HTTPSource_Invoke_nc w d hn)) = metadata_nc hn \<and>
   metadata_nc (snd (HTTPSource_Operations_nc hn)) = metadata_nc hn \<and>
   metadata_nc (snd (serve_all_nc hn cs)) = metadata_nc hn"
proof -
  have "snd (serve_all h cs) = h \<and> snd (serve_all_nc hn cs) = hn"
  proof (induction cs)
    case Nil
    show ?case by simp
  next
    case (Cons c cs)
    then show ?case
      using serve_receiver [of h c] serve_nc_receiver [of hn c]
      by (simp add: split_beta)
  qed
  then show ?thesis
    by (simp add: Read_receiver Invoke_receiver Read_nc_receiver Invoke_nc_receiver
          HTTPSource_Operations_def HTTPSource_Operations_nc_def)
qed

subsection \<open>Init\<close>

lemma rune_size_ascii: "(of_char c :: nat) < 128 \<Longrightarrow> rune_size (c # cs) = 1"
  by (simp add: rune_size_def)

lemma coerce_utf8_ascii: "list_all (\<lambda>c. (of_char c :: nat) < 128) s \<Longrightarrow> coerce_utf8 s = s"
  by (induction s) (simp_all add: rune_size_ascii)

lemma foldName_examples:
  "foldName ''url'' = ''URL''" "foldName ''method'' = ''METHOD''" "foldName ''user'' = ''USER''"
  "foldName ''password'' = ''PASSWORD''" "foldName ''credentials'' = ''CREDENTIALS''"
  by (simp_all add: toUpper_def in_range_def char_of_eq_iff)

lemma list_all_sort_key: "list_all P (sort_key f xs) = list_all P xs"
  by (simp add: list_all_iff)

lemma no_field_sort: "no_field f (sort_key fst ps) = no_field f ps"
  by (simp add: no_field_def list_all_sort_key)

text \<open>What the decoder does with a string, field by field.\<close>

lemma setField_JString:
  "setField (k, JString s) (m, sv) =
     (if foldName k = ''URL'' then m\<lparr>URL := s\<rparr>
      else if foldName k = ''METHOD'' then m\<lparr>Method := s\<rparr>
      else if foldName k = ''USER'' then m\<lparr>User := s\<rparr>
      else if foldName k = ''PASSWORD'' then m\<lparr>Password := s\<rparr>
      else m, sv)"
  by (simp add: Let_def)

lemma setField_nc_JString:
  "foldName k \<noteq> ''CREDENTIALS'' \<Longrightarrow>
   setField_nc (k, JString s) (m, sv) =
     (if foldName k = ''URL'' then m\<lparr>URL_nc := s\<rparr>
      else if foldName k = ''METHOD'' then m\<lparr>Method_nc := s\<rparr>
      else m, sv)"
  by (simp add: Let_def)

declare setField.simps [simp del] setField_nc.simps [simp del]

text \<open>An object of strings leaves no type error behind.\<close>

lemma snd_fold_setField:
  "snd (fold setField (map (\<lambda>(k, v). (coerce_utf8 k, JString (coerce_utf8 v))) ps) (m, sv)) = sv"
proof (induction ps arbitrary: m)
  case Nil
  show ?case by simp
next
  case (Cons p ps)
  obtain k v where p: "p = (k, v)" by (cases p)
  show ?case
    by (simp add: p setField_JString Cons.IH)
qed

lemma snd_fold_setField_nc:
  "no_field ''CREDENTIALS'' ps \<Longrightarrow>
   snd (fold setField_nc (map (\<lambda>(k, v). (coerce_utf8 k, JString (coerce_utf8 v))) ps) (m, sv)) = sv"
proof (induction ps arbitrary: m)
  case Nil
  show ?case by simp
next
  case (Cons p ps)
  obtain k v where p: "p = (k, v)" by (cases p)
  from Cons.prems have k: "foldName (coerce_utf8 k) \<noteq> ''CREDENTIALS''"
    and ps: "no_field ''CREDENTIALS'' ps"
    by (simp_all add: p no_field_def names_field_def)
  show ?case
    by (simp add: p setField_nc_JString [OF k] Cons.IH [OF ps])
qed

text \<open>The decoder's pass over an object of strings, field by field.\<close>

lemma last_value_Nil: "last_value f [] d = d"
  by (simp add: last_value_def)

lemma last_value_Cons:
  "last_value f ((k, v) # ps) d = last_value f ps (if names_field k f then coerce_utf8 v else d)"
  by (cases "filter (\<lambda>(k, v). names_field k f) ps") (simp_all add: last_value_def)

lemma fold_setField:
  "fold setField (map (\<lambda>(k, v). (coerce_utf8 k, JString (coerce_utf8 v))) ps) (m, sv) =
     (\<lparr>URL = last_value ''URL'' ps (URL m), Method = last_value ''METHOD'' ps (Method m),
       User = last_value ''USER'' ps (User m), Password = last_value ''PASSWORD'' ps (Password m)\<rparr>,
      sv)"
proof (induction ps arbitrary: m)
  case Nil
  show ?case by (simp add: last_value_Nil)
next
  case (Cons p ps)
  obtain k v where p: "p = (k, v)" by (cases p)
  show ?case
    by (auto simp add: p setField_JString Cons.IH last_value_Cons names_field_def)
qed

lemma fold_setField_nc:
  "no_field ''CREDENTIALS'' ps \<Longrightarrow>
   fold setField_nc (map (\<lambda>(k, v). (coerce_utf8 k, JString (coerce_utf8 v))) ps) (m, sv) =
     (\<lparr>URL_nc = last_value ''URL'' ps (URL_nc m),
       Method_nc = last_value ''METHOD'' ps (Method_nc m), Credentials = Credentials m\<rparr>,
      sv)"
proof (induction ps arbitrary: m)
  case Nil
  show ?case by (simp add: last_value_Nil)
next
  case (Cons p ps)
  obtain k v where p: "p = (k, v)" by (cases p)
  from Cons.prems have k: "foldName (coerce_utf8 k) \<noteq> ''CREDENTIALS''"
    and ps: "no_field ''CREDENTIALS'' ps"
    by (simp_all add: p no_field_def names_field_def)
  show ?case
    by (auto simp add: p setField_nc_JString [OF k] Cons.IH [OF ps] last_value_Cons
          names_field_def)
qed

text \<open>What the value of a field is when every key that names it agrees.\<close>

lemma last_value_only:
  "list_all (\<lambda>(k, v'). \<not> names_field k f \<or> v' = v) ps \<Longrightarrow>
   last_value f ps d =
     (if list_all (\<lambda>(k, v). \<not> names_field k f) ps then d else coerce_utf8 v)"
proof (induction ps arbitrary: d)
  case Nil
  show ?case by (simp add: last_value_Nil)
next
  case (Cons p ps)
  obtain k v' where p: "p = (k, v')" by (cases p)
  from Cons.prems have kv: "names_field k f \<Longrightarrow> v' = v"
    and ps: "list_all (\<lambda>(k, v'). \<not> names_field k f \<or> v' = v) ps"
    by (auto simp add: p)
  show ?case
    using kv by (auto simp add: p last_value_Cons Cons.IH [OF ps])
qed

lemma stored_value_only:
  "field_only f v props \<Longrightarrow>
   stored_value f props = (if no_field f props then '''' else coerce_utf8 v)"
  by (simp add: stored_value_def field_only_def no_field_def last_value_only list_all_sort_key)

lemma stored_value_unset: "field_unset f props \<Longrightarrow> stored_value f props = ''''"
  using stored_value_only [of f "''''" props] by (simp add: field_unset_def field_only_def)

lemma Init_eq:
  "Init h md =
     Inr (h\<lparr>metadata := fst (fold setField
        (map (\<lambda>(k, v). (coerce_utf8 k, JString (coerce_utf8 v))) (sort_key fst (Properties md)))
        (zero_httpMetadata, None))\<rparr>)"
proof -
  let ?r = "fold setField
        (map (\<lambda>(k, v). (coerce_utf8 k, JString (coerce_utf8 v))) (sort_key fst (Properties md)))
        (zero_httpMetadata, None)"
  have "snd ?r = None" by (rule snd_fold_setField)
  then show ?thesis
    by (cases ?r) (simp add: Init_def Marshal_def Unmarshal_def)
qed

lemma Init_nc_eq:
  assumes "no_field ''CREDENTIALS'' (Properties md)"
  shows "Init_nc h md =
     Inr (h\<lparr>metadata_nc := fst (fold setField_nc
        (map (\<lambda>(k, v). (coerce_utf8 k, JString (coerce_utf8 v))) (sort_key fst (Properties md)))
        (zero_httpMetadata_nc, None))\<rparr>)"
proof -
  let ?r = "fold setField_nc
        (map (\<lambda>(k, v). (coerce_utf8 k, JString (coerce_utf8 v))) (sort_key fst (Properties md)))
        (zero_httpMetadata_nc, None)"
  have "snd ?r = None"
    by (rule snd_fold_setField_nc) (simp add: no_field_sort assms)
  then show ?thesis
    by (cases ?r) (simp add: Init_nc_def Marshal_def Unmarshal_nc_def)
qed

text \<open>The configurations of the examples.\<close>

lemma Init_props_api:
  "Init (NewHTTP ()) \<lparr>Name = ''http'', Properties = props_api\<rparr> = Inr h_api"
  by (simp add: Init_eq NewHTTP_def props_api_def h_api_def zero_httpMetadata_def
        less_eq_char_def less_char_def coerce_utf8_ascii foldName_examples setField_JString
        del: coerce_utf8.simps foldName.simps)

lemma Init_nc_props_put:
  "Init_nc (NewHTTP_nc ()) \<lparr>Name = ''http'', Properties = props_put\<rparr> = Inr h_put_nc"
  by (simp add: Init_nc_def Marshal_def Unmarshal_nc_def NewHTTP_nc_def props_put_def h_put_nc_def
        zero_httpMetadata_nc_def less_eq_char_def less_char_def coerce_utf8_ascii foldName_examples
        setField_nc_JString del: coerce_utf8.simps foldName.simps)

text \<open>
  A property map has string values only, so a \<^verbatim>\<open>credentials\<close> key never decodes
  into the struct of part\_000: its \<^verbatim>\<open>Init\<close> returns the decoder's type error.
\<close>

lemma Init_nc_rejects_credentials:
  "Init_nc (NewHTTP_nc ()) \<lparr>Name = ''http'', Properties = [(''credentials'', ''a:b'')]\<rparr> =
     Inl (typeError ''string'' ''httpMetadata'' ''credentials'' ''http.credentials'')"
  by (simp add: Init_nc_def Marshal_def Unmarshal_nc_def zero_httpMetadata_nc_def
        coerce_utf8_ascii foldName_examples setField_nc.simps Let_def saveError_def
        del: coerce_utf8.simps foldName.simps)

lemma typeError_credentials:
  "typeError ''string'' ''httpMetadata'' ''credentials'' ''http.credentials'' =
     Error (''json: cannot unmarshal string into Go struct field httpMetadata.credentials '' @
            ''of type http.credentials'')"
  by (simp add: typeError_def)

lemma props_empty_url_facts:
  "field_unset ''URL'' props_empty_url" "field_unset ''USER'' props_empty_url"
  "field_unset ''PASSWORD'' props_empty_url"
  "field_only ''METHOD'' ''POST'' props_empty_url" "\<not> no_field ''METHOD'' props_empty_url"
  "no_field ''CREDENTIALS'' props_empty_url"
  by (simp_all add: field_unset_def field_only_def no_field_def names_field_def
        props_empty_url_def coerce_utf8_ascii foldName_examples
        del: coerce_utf8.simps foldName.simps)

text \<open>
  C9. \<^verbatim>\<open>Init\<close> of http.go returns no error, whatever the property map: marshalling
  the map yields a document, unmarshalling that document into the metadata yields a
  metadata value, and \<^verbatim>\<open>Init\<close> stores it.
\<close>

theorem Init_never_fails:
  "\<exists>b m. Marshal (Properties md) = Inr b \<and> Unmarshal b zero_httpMetadata = Inr m \<and>
         Init h md = Inr (h\<lparr>metadata := m\<rparr>)"
proof -
  let ?b = "JObject (map (\<lambda>(k, v). (coerce_utf8 k, JString (coerce_utf8 v)))
               (sort_key fst (Properties md)))"
  let ?r = "fold setField
        (map (\<lambda>(k, v). (coerce_utf8 k, JString (coerce_utf8 v))) (sort_key fst (Properties md)))
        (zero_httpMetadata, None)"
  have s: "snd ?r = None" by (rule snd_fold_setField)
  have 1: "Marshal (Properties md) = Inr ?b" by (simp add: Marshal_def)
  have 2: "Unmarshal ?b zero_httpMetadata = Inr (fst ?r)"
    using s by (cases ?r) (simp add: Unmarshal_def)
  have 3: "Init h md = Inr (h\<lparr>metadata := fst ?r\<rparr>)" by (rule Init_eq)
  from 1 2 3 show ?thesis by blast
qed

text \<open>
  C7. \<^verbatim>\<open>Init\<close> of http.go succeeds on every property map, and \<^verbatim>\<open>Init\<close> of part\_000
  on every property map with no \<^verbatim>\<open>credentials\<close> key, whatever the map says of URL and
  method; the adapter then holds, in each field of its metadata, the value that the map
  gives to that field. That value is the empty string when no key that names the field
  carries a non-empty value (the field is absent or empty), and it is the map's value,
  as the encoder writes it, when the keys that name the field carry that one value.
\<close>

theorem Init_accepts_empty_url_and_method:
  "Init h md =
     Inr (h\<lparr>metadata :=
            \<lparr>URL = stored_value ''URL'' (Properties md),
             Method = stored_value ''METHOD'' (Properties md),
             User = stored_value ''USER'' (Properties md),
             Password = stored_value ''PASSWORD'' (Properties md)\<rparr>\<rparr>) \<and>
   (no_field ''CREDENTIALS'' (Properties md) \<longrightarrow>
      Init_nc hn md =
        Inr (hn\<lparr>metadata_nc :=
               \<lparr>URL_nc = stored_value ''URL'' (Properties md),
                Method_nc = stored_value ''METHOD'' (Properties md),
                Credentials = None\<rparr>\<rparr>)) \<and>
   (field_unset f (Properties md) \<longrightarrow> stored_value f (Properties md) = '''') \<and>
   (field_only f v (Properties md) \<and> \<not> no_field f (Properties md) \<longrightarrow>
      stored_value f (Properties md) = coerce_utf8 v)"
proof (intro conjI impI)
  show "Init h md =
     Inr (h\<lparr>metadata :=
            \<lparr>URL = stored_value ''URL'' (Properties md),
             Method = stored_value ''METHOD'' (Properties md),
             User = stored_value ''USER'' (Properties md),
             Password = stored_value ''PASSWORD'' (Properties md)\<rparr>\<rparr>)"
    by (simp add: Init_eq fold_setField stored_value_def zero_httpMetadata_def)
next
  assume "no_field ''CREDENTIALS'' (Properties md)"
  then show "Init_nc hn md =
        Inr (hn\<lparr>metadata_nc :=
               \<lparr>URL_nc = stored_value ''URL'' (Properties md),
                Method_nc = stored_value ''METHOD'' (Properties md),
                Credentials = None\<rparr>\<rparr>)"
    by (simp add: Init_nc_eq fold_setField_nc no_field_sort stored_value_def
          zero_httpMetadata_nc_def)
next
  assume "field_unset f (Properties md)"
  then show "stored_value f (Properties md) = ''''"
    by (rule stored_value_unset)
next
  assume "field_only f v (Properties md) \<and> \<not> no_field f (Properties md)"
  then have a: "field_only f v (Properties md)" and b: "\<not> no_field f (Properties md)"
    by simp_all
  show "stored_value f (Properties md) = coerce_utf8 v"
    using stored_value_only [OF a] b by simp
qed

theorem Init_accepts_empty_url_and_method_witness:
  "field_unset ''URL'' props_empty_url \<and>
   field_only ''METHOD'' ''POST'' props_empty_url \<and> \<not> no_field ''METHOD'' props_empty_url \<and>
   no_field ''CREDENTIALS'' props_empty_url \<and>
   Init (NewHTTP ()) \<lparr>Name = ''http'', Properties = props_empty_url\<rparr> =
     Inr \<lparr>metadata = \<lparr>URL = '''', Method = ''POST'', User = '''', Password = ''''\<rparr>, logger = ()\<rparr> \<and>
   Init_nc (NewHTTP_nc ()) \<lparr>Name = ''http'', Properties = props_empty_url\<rparr> =
     Inr \<lparr>metadata_nc = \<lparr>URL_nc = '''', Method_nc = ''POST'', Credentials = None\<rparr>,
          logger_nc = ()\<rparr>"
  using Init_accepts_empty_url_and_method
          [of "NewHTTP ()" "\<lparr>Name = ''http'', Properties = props_empty_url\<rparr>" "NewHTTP_nc ()"
              "''URL''" "''''"]
        Init_accepts_empty_url_and_method
          [of "NewHTTP ()" "\<lparr>Name = ''http'', Properties = props_empty_url\<rparr>" "NewHTTP_nc ()"
              "''METHOD''" "''POST''"]
        Init_accepts_empty_url_and_method
          [of "NewHTTP ()" "\<lparr>Name = ''http'', Properties = props_empty_url\<rparr>" "NewHTTP_nc ()"
              "''USER''" "''''"]
        Init_accepts_empty_url_and_method
          [of "NewHTTP ()" "\<lparr>Name = ''http'', Properties = props_empty_url\<rparr>" "NewHTTP_nc ()"
              "''PASSWORD''" "''''"]
  by (simp add: props_empty_url_facts NewHTTP_def NewHTTP_nc_def coerce_utf8_ascii
        del: coerce_utf8.simps)

text \<open>
  C1 at the failing input: part\_000 is configured with the method PUT, and the request
  of \<^verbatim>\<open>Invoke\<close> has the method POST.
\<close>

theorem Invoke_nc_ignores_configured_method:
  "Init_nc (NewHTTP_nc ()) \<lparr>Name = ''http'', Properties = props_put\<rparr> = Inr h_put_nc \<and>
   Method_nc (metadata_nc h_put_nc) = ''PUT'' \<and>
   map req_Method (sent_requests (snd (Invoke_nc world_ok h_put_nc ''{}''))) = [''POST'']"
  by (simp add: Init_nc_props_put sent_Invoke_nc addCredentials_nc_keeps Header_Set_keeps
        world_ok_def h_put_nc_def)

end
